theory Spec2Isabelle
  imports Main
begin

section \<open>The unified generation call of \<open>src/utils/aiHelper.ts\<close>\<close>

text \<open>
  \<open>generateContent\<close> takes one request object and performs one remote call: an HTTP POST
  to an OpenAI-compatible endpoint when \<open>req.baseUrl\<close> is truthy, a call of the vendor SDK
  otherwise. The embedding keeps the values the function builds (messages, body, endpoint,
  parts, config) as data, takes the two remote services as functions of the value they are
  called with, and returns the result of the promise (rejection as \<open>Inl\<close>) together with the
  calls and console output in the order they happen.
\<close>

subsection \<open>JavaScript values\<close>

text \<open>
  The values \<open>jsonSchema?: any\<close> and the parsed response body range over. An object is
  the list of its own properties, each key once. Only the integers among the numbers are
  modelled; the function never computes with a number, it only tests one for truthiness.
  A string is a list of characters.
\<close>

datatype js_value =
    JUndefined
  | JNull
  | JBool bool
  | JNum int
  | JStr string
  | JArr "js_value list"
  | JObj "(string \<times> js_value) list"

text \<open>The conversion to boolean of \<open>if (v)\<close>, \<open>!v\<close> and \<open>v || d\<close>.\<close>

fun truthy :: "js_value \<Rightarrow> bool" where
  "truthy JUndefined = False"
| "truthy JNull = False"
| "truthy (JBool b) = b"
| "truthy (JNum n) = (n \<noteq> 0)"
| "truthy (JStr s) = (s \<noteq> [])"
| "truthy (JArr xs) = True"
| "truthy (JObj kvs) = True"

text \<open>An optional string field (\<open>f?: string\<close>): \<open>None\<close> is \<open>undefined\<close>.\<close>

fun truthy_str :: "string option \<Rightarrow> bool" where
  "truthy_str None = False"
| "truthy_str (Some s) = (s \<noteq> [])"

text \<open>An exception value; the function reads nothing but its \<open>message\<close>.\<close>

datatype js_error = Error (message: string)

text \<open>
  Reading the property \<open>k\<close> of a value that is neither \<open>null\<close> nor \<open>undefined\<close>, for the
  keys \<open>choices\<close>, \<open>message\<close> and \<open>content\<close>, which no array, string, number or boolean
  has; and reading index \<open>0\<close>.
\<close>

fun get_prop :: "js_value \<Rightarrow> string \<Rightarrow> js_value" where
  "get_prop (JObj kvs) k = (case map_of kvs k of Some v \<Rightarrow> v | None \<Rightarrow> JUndefined)"
| "get_prop v k = JUndefined"

fun get_index0 :: "js_value \<Rightarrow> js_value" where
  "get_index0 (JArr xs) = (case xs of [] \<Rightarrow> JUndefined | x # rest \<Rightarrow> x)"
| "get_index0 (JStr s) = (case s of [] \<Rightarrow> JUndefined | c # rest \<Rightarrow> JStr [c])"
| "get_index0 (JObj kvs) = (case map_of kvs ''0'' of Some v \<Rightarrow> v | None \<Rightarrow> JUndefined)"
| "get_index0 v = JUndefined"

definition nullish :: "js_value \<Rightarrow> bool" where
  "nullish v = (v = JUndefined \<or> v = JNull)"

subsection \<open>The request\<close>

record AIRequest =
  apiKey :: string
  model :: string
  baseUrl :: "string option"
  prompt :: string
  systemInstruction :: "string option"
  image_data :: "string option"
  mimeType :: "string option"
  jsonSchema :: js_value

text \<open>
  \<open>image_data\<close> is the field \<open>image\<close>. An absent \<open>jsonSchema\<close> reads as \<open>JUndefined\<close>.
\<close>

subsection \<open>Path A: the chat-completions request\<close>

text \<open>
  A content part is an object with a \<open>type\<close> and either a \<open>text\<close> or an
  \<open>image_url: {url}\<close>; a message content is a string or an array of parts.
\<close>

record content_part =
  part_type :: string
  part_text :: "string option"
  image_url :: "string option"

datatype message_content =
    ContentString string
  | ContentParts "content_part list"

record chat_message =
  role :: string
  content :: message_content

datatype response_format = ResponseFormat (rf_type: string)

record chat_body =
  body_model :: string
  body_messages :: "chat_message list"
  stream :: bool
  response_format :: "response_format option"

record http_request =
  endpoint :: string
  http_method :: string
  headers :: "(string \<times> string) list"
  http_body :: chat_body

text \<open>
  What the function reads of the response: \<open>ok\<close>, \<open>status\<close>, and the outcomes of
  \<open>await response.text()\<close> and \<open>await response.json()\<close>.
\<close>

record http_response =
  ok :: bool
  status :: nat
  text_result :: "js_error + string"
  json_result :: "js_error + js_value"

subsection \<open>Path B: the SDK call\<close>

datatype sdk_part =
    InlineData string string
  | TextPart string

record sdk_config =
  cfg_systemInstruction :: "string option"
  responseMimeType :: "string option"
  responseSchema :: "js_value option"

record sdk_call =
  sdk_apiKey :: string
  sdk_model :: string
  parts :: "sdk_part list"
  config :: sdk_config

record sdk_response =
  response_text :: "string option"

subsection \<open>The outside world and what the function does to it\<close>

record world =
  fetch :: "http_request \<Rightarrow> js_error + http_response"
  sdk_generateContent :: "sdk_call \<Rightarrow> js_error + sdk_response"

datatype effect =
    HttpPost http_request
  | SdkGenerate sdk_call
  | ConsoleError string js_error

text \<open>A service that answers every call with the same outcome.\<close>

definition always :: "'b \<Rightarrow> 'a \<Rightarrow> 'b" where
  "always r x = r"

subsection \<open>Strings\<close>

text \<open>\<open>s.endsWith(t)\<close>.\<close>

definition endsWith :: "string \<Rightarrow> string \<Rightarrow> bool" where
  "endsWith s t = (length t \<le> length s \<and> drop (length s - length t) s = t)"

text \<open>
  \<open>s.replace(/\/+$/, '')\<close>: the leftmost position from which the rest of the string is
  one or more slashes is where the pattern matches, and the match is replaced by nothing;
  a string with no such position is returned as it is.
\<close>

fun replace_trailing_slashes :: "string \<Rightarrow> string" where
  "replace_trailing_slashes [] = []"
| "replace_trailing_slashes (c # cs) =
     (if c = CHR ''/'' \<and> list_all (\<lambda>x. x = CHR ''/'') cs then []
      else c # replace_trailing_slashes cs)"

text \<open>The decimal digits of a number, as a template literal prints \<open>response.status\<close>.\<close>

fun string_of_nat :: "nat \<Rightarrow> string" where
  "string_of_nat n =
     (if n < 10 then [''0123456789'' ! n]
      else string_of_nat (n div 10) @ [''0123456789'' ! (n mod 10)])"

declare string_of_nat.simps [simp del]

subsection \<open>\<open>generateContent\<close>\<close>

text \<open>Line 19: \<open>const mimeType = req.mimeType || 'image/png'\<close>.\<close>

definition mimeType_local :: "AIRequest \<Rightarrow> string" where
  "mimeType_local req =
     (case mimeType req of
        None \<Rightarrow> ''image/png''
      | Some m \<Rightarrow> if m \<noteq> [] then m else ''image/png'')"

definition text_part :: "string \<Rightarrow> content_part" where
  "text_part t = \<lparr>part_type = ''text'', part_text = Some t, image_url = None\<rparr>"

definition image_url_part :: "string \<Rightarrow> content_part" where
  "image_url_part u = \<lparr>part_type = ''image_url'', part_text = None, image_url = Some u\<rparr>"

text \<open>Lines 35 to 41: what \<open>if (req.image)\<close> pushes onto \<open>content\<close>.\<close>

definition image_parts :: "AIRequest \<Rightarrow> content_part list" where
  "image_parts req =
     (case image_data req of
        None \<Rightarrow> []
      | Some img \<Rightarrow>
          if img \<noteq> [] then [image_url_part (''data:'' @ mimeType_local req @ '';base64,'' @ img)]
          else [])"

text \<open>Lines 33 to 41: the array \<open>content\<close>.\<close>

definition user_content :: "AIRequest \<Rightarrow> content_part list" where
  "user_content req = text_part (prompt req) # image_parts req"

text \<open>Lines 28 to 30: what \<open>if (req.systemInstruction)\<close> pushes onto \<open>messages\<close>.\<close>

definition system_messages :: "AIRequest \<Rightarrow> chat_message list" where
  "system_messages req =
     (case systemInstruction req of
        None \<Rightarrow> []
      | Some s \<Rightarrow> if s \<noteq> [] then [\<lparr>role = ''system'', content = ContentString s\<rparr>] else [])"

text \<open>Lines 25 to 43: the array \<open>messages\<close>.\<close>

definition build_messages :: "AIRequest \<Rightarrow> chat_message list" where
  "build_messages req =
     system_messages req @ [\<lparr>role = ''user'', content = ContentParts (user_content req)\<rparr>]"

definition json_suffix :: string where
  "json_suffix = ''\<newline>\<newline>Please respond in valid JSON format.''"

text \<open>
  Lines 55 to 60, on any array of messages. The last message is updated in place, and
  \<open>body.messages\<close> is the same array, so the body that is sent holds the updated message;
  no other object is reachable from two places. Reading \<open>content\<close> of a missing last
  message, or \<open>text\<close> of a missing first part, raises a TypeError; \<open>+=\<close> on a part with
  no \<open>text\<close> appends to the string \<open>undefined\<close>.
\<close>

definition append_json_hint :: "chat_message list \<Rightarrow> js_error + chat_message list" where
  "append_json_hint messages =
     (if messages = [] then
        Inl (Error ''Cannot read properties of undefined (reading 'content')'')
      else
        let lastMsg = messages ! (length messages - 1) in
        case content lastMsg of
          ContentString s \<Rightarrow>
            Inr (messages[length messages - 1 :=
                   lastMsg\<lparr>content := ContentString (s @ json_suffix)\<rparr>])
        | ContentParts ps \<Rightarrow>
            (case ps of
               [] \<Rightarrow> Inl (Error ''Cannot read properties of undefined (reading 'text')'')
             | p # rest \<Rightarrow>
                 Inr (messages[length messages - 1 :=
                        lastMsg\<lparr>content := ContentParts
                          (p\<lparr>part_text :=
                               Some ((case part_text p of None \<Rightarrow> ''undefined'' | Some t \<Rightarrow> t)
                                     @ json_suffix)\<rparr> # rest)\<rparr>])))"

text \<open>Lines 45 to 61: the body as it is when \<open>JSON.stringify\<close> reads it.\<close>

definition build_body :: "AIRequest \<Rightarrow> js_error + chat_body" where
  "build_body req =
     (let messages = build_messages req in
      if truthy (jsonSchema req) then
        (case append_json_hint messages of
           Inl e \<Rightarrow> Inl e
         | Inr messages' \<Rightarrow>
             Inr \<lparr>body_model = model req, body_messages = messages', stream = False,
                  response_format = Some (ResponseFormat ''json_object'')\<rparr>)
      else
        Inr \<lparr>body_model = model req, body_messages = messages, stream = False,
             response_format = None\<rparr>)"

text \<open>Lines 65 to 68.\<close>

definition cleanBaseUrl :: "string \<Rightarrow> string" where
  "cleanBaseUrl b = replace_trailing_slashes b"

definition endpoint_of :: "string \<Rightarrow> string" where
  "endpoint_of b =
     (if endsWith (cleanBaseUrl b) ''/chat/completions'' then cleanBaseUrl b
      else cleanBaseUrl b @ ''/chat/completions'')"

text \<open>Lines 71 to 78: the argument of \<open>fetch\<close>.\<close>

definition build_request :: "AIRequest \<Rightarrow> string \<Rightarrow> chat_body \<Rightarrow> http_request" where
  "build_request req b body =
     \<lparr>endpoint = endpoint_of b, http_method = ''POST'',
      headers = [(''Content-Type'', ''application/json''),
                 (''Authorization'', ''Bearer '' @ apiKey req)],
      http_body = body\<rparr>"

text \<open>
  Line 86: \<open>data.choices?.[0]?.message?.content\<close>. Only \<open>data.choices\<close> is read without
  \<open>?.\<close>, so it alone raises a TypeError, on a \<open>null\<close> body; the text of the message is
  the engine's.
\<close>

definition extract_content :: "js_value \<Rightarrow> js_error + js_value" where
  "extract_content data =
     (if data = JNull then
        Inl (Error ''Cannot read properties of null (reading 'choices')'')
      else if data = JUndefined then
        Inl (Error ''Cannot read properties of undefined (reading 'choices')'')
      else
        let choices = get_prop data ''choices'' in
        if nullish choices then Inr JUndefined
        else
          let first = get_index0 choices in
          if nullish first then Inr JUndefined
          else
            let msg = get_prop first ''message'' in
            if nullish msg then Inr JUndefined
            else Inr (get_prop msg ''content''))"

text \<open>Lines 71 to 89: the body of the \<open>try\<close> block, from the outcome of \<open>fetch\<close>.\<close>

definition try_block :: "js_error + http_response \<Rightarrow> js_error + js_value" where
  "try_block fetched =
     (case fetched of
        Inl e \<Rightarrow> Inl e
      | Inr response \<Rightarrow>
          if \<not> ok response then
            (case text_result response of
               Inl e \<Rightarrow> Inl e
             | Inr errorText \<Rightarrow>
                 Inl (Error (''API Error '' @ string_of_nat (status response) @ '': ''
                             @ errorText)))
          else
            (case json_result response of
               Inl e \<Rightarrow> Inl e
             | Inr data \<Rightarrow>
                 (case extract_content data of
                    Inl e \<Rightarrow> Inl e
                  | Inr result \<Rightarrow>
                      if \<not> truthy result then Inl (Error ''No content in response'')
                      else Inr result)))"

text \<open>Lines 90 to 93: the \<open>catch\<close> block.\<close>

definition catch_block :: "js_error + js_value \<Rightarrow> (js_error + js_value) \<times> effect list" where
  "catch_block outcome =
     (case outcome of
        Inl e \<Rightarrow>
          (Inl (Error (''AI Request Failed: '' @ message e)),
           [ConsoleError ''Compatible API Error:'' e])
      | Inr result \<Rightarrow> (Inr result, []))"

text \<open>Lines 102 to 104: what \<open>if (req.image)\<close> pushes onto \<open>parts\<close>.\<close>

definition inline_parts :: "AIRequest \<Rightarrow> sdk_part list" where
  "inline_parts req =
     (case image_data req of
        None \<Rightarrow> []
      | Some img \<Rightarrow> if img \<noteq> [] then [InlineData (mimeType_local req) img] else [])"

text \<open>Lines 101 to 105: the array \<open>parts\<close>.\<close>

definition build_parts :: "AIRequest \<Rightarrow> sdk_part list" where
  "build_parts req = inline_parts req @ [TextPart (prompt req)]"

text \<open>Lines 107 to 114: the object \<open>config\<close>; a key that is not set is \<open>None\<close>.\<close>

definition build_config :: "AIRequest \<Rightarrow> sdk_config" where
  "build_config req =
     \<lparr>cfg_systemInstruction =
        (if truthy_str (systemInstruction req) then systemInstruction req else None),
      responseMimeType =
        (if truthy (jsonSchema req) then Some ''application/json'' else None),
      responseSchema =
        (if truthy (jsonSchema req) then Some (jsonSchema req) else None)\<rparr>"

text \<open>Lines 99 and 116 to 120: the client and the argument of its \<open>generateContent\<close>.\<close>

definition build_call :: "AIRequest \<Rightarrow> sdk_call" where
  "build_call req =
     \<lparr>sdk_apiKey = apiKey req, sdk_model = model req,
      parts = build_parts req, config = build_config req\<rparr>"

text \<open>
  Lines 24 to 94, with \<open>b\<close> the truthy \<open>req.baseUrl\<close>. Lines 52 to 68 stand before the
  \<open>try\<close>, so an exception there would leave the function as it is, with no call made.
\<close>

definition compatible_mode :: "world \<Rightarrow> AIRequest \<Rightarrow> string \<Rightarrow> (js_error + js_value) \<times> effect list" where
  "compatible_mode w req b =
     (case build_body req of
        Inl e \<Rightarrow> (Inl e, [])
      | Inr body \<Rightarrow>
          let rq = build_request req b body;
              (res, logged) = catch_block (try_block (fetch w rq))
          in (res, HttpPost rq # logged))"

text \<open>
  Lines 99 to 122. A rejection of the SDK call is not caught; line 122 is
  \<open>response.text || ""\<close>.
\<close>

definition native_mode :: "world \<Rightarrow> AIRequest \<Rightarrow> (js_error + js_value) \<times> effect list" where
  "native_mode w req =
     (case sdk_generateContent w (build_call req) of
        Inl e \<Rightarrow> (Inl e, [SdkGenerate (build_call req)])
      | Inr response \<Rightarrow>
          (Inr (JStr (case response_text response of
                        None \<Rightarrow> []
                      | Some t \<Rightarrow> if t \<noteq> [] then t else [])),
           [SdkGenerate (build_call req)]))"

text \<open>The whole function: line 24 is \<open>if (req.baseUrl)\<close>.\<close>

definition generateContent :: "world \<Rightarrow> AIRequest \<Rightarrow> (js_error + js_value) \<times> effect list" where
  "generateContent w req =
     (case baseUrl req of
        None \<Rightarrow> native_mode w req
      | Some b \<Rightarrow> if b \<noteq> [] then compatible_mode w req b else native_mode w req)"

subsection \<open>Reading the calls a run has made\<close>

fun posts :: "effect list \<Rightarrow> http_request list" where
  "posts [] = []"
| "posts (HttpPost rq # es) = rq # posts es"
| "posts (SdkGenerate c # es) = posts es"
| "posts (ConsoleError l e # es) = posts es"

fun sdk_calls :: "effect list \<Rightarrow> sdk_call list" where
  "sdk_calls [] = []"
| "sdk_calls (HttpPost rq # es) = sdk_calls es"
| "sdk_calls (SdkGenerate c # es) = c # sdk_calls es"
| "sdk_calls (ConsoleError l e # es) = sdk_calls es"

fun parts_of :: "message_content \<Rightarrow> content_part list" where
  "parts_of (ContentParts ps) = ps"
| "parts_of (ContentString s) = []"

fun is_inline_data :: "sdk_part \<Rightarrow> bool" where
  "is_inline_data (InlineData m d) = True"
| "is_inline_data (TextPart t) = False"

subsection \<open>The endpoint as the specification words it\<close>

text \<open>
  ``Strip trailing slashes from \<open>endpointBase\<close>'': drop slashes from the end for as long
  as there is one. This definition follows the specification, not the regular expression
  of line 65.
\<close>

definition strip_trailing_slashes_spec :: "string \<Rightarrow> string" where
  "strip_trailing_slashes_spec b = rev (dropWhile (\<lambda>c. c = CHR ''/'') (rev b))"

subsection \<open>The response field as the specification words it\<close>

text \<open>
  ``Extract \<open>choices[0].message.content\<close>'': follow the path, and a step that is missing
  leaves nothing to read further on. This definition follows the specification, not the
  optional chain of line 86.
\<close>

definition content_path_spec :: "js_value \<Rightarrow> js_value" where
  "content_path_spec data =
     get_prop (get_prop (get_index0 (get_prop data ''choices'')) ''message'') ''content''"

section \<open>Properties\<close>

subsection \<open>Strings\<close>


lemma endsWith_iff_append: "endsWith s t \<longleftrightarrow> (\<exists>p. s = p @ t)"
proof
  assume "endsWith s t"
  then have "take (length s - length t) s @ t = s"
    unfolding endsWith_def by (metis append_take_drop_id)
  then show "\<exists>p. s = p @ t" by (rule exI[of _ "take (length s - length t) s", OF sym])
next
  assume "\<exists>p. s = p @ t"
  then show "endsWith s t"
    by (auto simp: endsWith_def)
qed

lemma replace_trailing_slashes_all:
  "list_all (\<lambda>x. x = CHR ''/'') cs \<Longrightarrow> replace_trailing_slashes cs = []"
  by (cases cs) auto

lemma replace_trailing_slashes_spec:
  "replace_trailing_slashes b = strip_trailing_slashes_spec b"
proof (induction b)
  case Nil
  show ?case by (simp add: strip_trailing_slashes_spec_def)
next
  case (Cons c cs)
  show ?case
  proof (cases "list_all (\<lambda>x. x = CHR ''/'') cs")
    case True
    then have "dropWhile (\<lambda>c. c = CHR ''/'') (rev cs) = []"
      by (simp add: list_all_iff)
    with True show ?thesis
      by (simp add: strip_trailing_slashes_spec_def dropWhile_append
                    replace_trailing_slashes_all list_all_iff)
  next
    case False
    then have "\<not> (\<forall>x\<in>set (rev cs). x = CHR ''/'')"
      by (simp add: list_all_iff)
    then have "dropWhile (\<lambda>c. c = CHR ''/'') (rev cs @ [c]) =
               dropWhile (\<lambda>c. c = CHR ''/'') (rev cs) @ [c]"
      by (simp only: dropWhile_append if_False)
    with False Cons show ?thesis
      by (simp add: strip_trailing_slashes_spec_def)
  qed
qed

lemma strip_trailing_slashes_spec_decomp:
  "\<exists>k. b = strip_trailing_slashes_spec b @ replicate k (CHR ''/'')"
proof -
  let ?P = "\<lambda>c. c = CHR ''/''"
  have "rev (rev b) = rev (takeWhile ?P (rev b) @ dropWhile ?P (rev b))"
    by (simp only: takeWhile_dropWhile_id)
  then have b: "b = rev (dropWhile ?P (rev b)) @ rev (takeWhile ?P (rev b))"
    by (simp only: rev_append rev_rev_ident)
  have "rev (takeWhile ?P (rev b)) = replicate (length (takeWhile ?P (rev b))) (CHR ''/'')"
    by (rule replicate_eqI) (auto dest: set_takeWhileD)
  with b have "b = strip_trailing_slashes_spec b @
                 replicate (length (takeWhile ?P (rev b))) (CHR ''/'')"
    unfolding strip_trailing_slashes_spec_def by simp
  then show ?thesis ..
qed

lemma strip_trailing_slashes_spec_no_slash:
  "\<not> endsWith (strip_trailing_slashes_spec b) ''/''"
proof
  let ?P = "\<lambda>c. c = CHR ''/''"
  assume "endsWith (strip_trailing_slashes_spec b) ''/''"
  then obtain p where "rev (dropWhile ?P (rev b)) = p @ ''/''"
    unfolding endsWith_iff_append strip_trailing_slashes_spec_def by blast
  then have "rev (rev (dropWhile ?P (rev b))) = rev (p @ ''/'')"
    by (simp only:)
  then have eq: "dropWhile ?P (rev b) = CHR ''/'' # rev p"
    by simp
  then have "dropWhile ?P (rev b) \<noteq> []" by simp
  then have "\<not> ?P (hd (dropWhile ?P (rev b)))" by (rule hd_dropWhile)
  with eq show False by simp
qed


subsection \<open>The values built on the first path\<close>

lemma append_json_hint_build_messages:
  "append_json_hint (build_messages req) =
     Inr (system_messages req @
          [\<lparr>role = ''user'',
            content = ContentParts (text_part (prompt req @ json_suffix) # image_parts req)\<rparr>])"
  by (simp add: append_json_hint_def build_messages_def user_content_def text_part_def)

lemma build_body_eq:
  "build_body req =
     Inr \<lparr>body_model = model req,
          body_messages = system_messages req @
            [\<lparr>role = ''user'',
              content = ContentParts
                (text_part (prompt req @ (if truthy (jsonSchema req) then json_suffix else []))
                 # image_parts req)\<rparr>],
          stream = False,
          response_format =
            (if truthy (jsonSchema req) then Some (ResponseFormat ''json_object'') else None)\<rparr>"
  unfolding build_body_def Let_def append_json_hint_build_messages
  by (simp add: build_messages_def user_content_def)

text \<open>The body that is sent, which the lemma above shows always exists.\<close>

lemma compatible_mode_posts:
  "build_body req = Inr body \<Longrightarrow>
   posts (snd (compatible_mode w req b)) = [build_request req b body]"
  by (simp add: compatible_mode_def catch_block_def Let_def split: sum.splits prod.splits)

lemma compatible_mode_sdk_calls: "sdk_calls (snd (compatible_mode w req b)) = []"
  by (simp add: compatible_mode_def build_body_eq catch_block_def Let_def
           split: sum.splits prod.splits)

lemma compatible_mode_result:
  "build_body req = Inr body \<Longrightarrow>
   fst (compatible_mode w req b) =
     fst (catch_block (try_block (fetch w (build_request req b body))))"
  by (simp add: compatible_mode_def Let_def split: prod.splits)

lemma native_mode_posts: "posts (snd (native_mode w req)) = []"
  by (simp add: native_mode_def split: sum.splits)

lemma native_mode_sdk_calls: "sdk_calls (snd (native_mode w req)) = [build_call req]"
  by (simp add: native_mode_def split: sum.splits)

subsection \<open>Which path runs\<close>

lemma generateContent_compatible:
  "baseUrl req = Some b \<Longrightarrow> b \<noteq> [] \<Longrightarrow> generateContent w req = compatible_mode w req b"
  by (simp add: generateContent_def)

lemma generateContent_native:
  "baseUrl req = None \<or> baseUrl req = Some [] \<Longrightarrow> generateContent w req = native_mode w req"
  by (auto simp: generateContent_def)

lemma generateContent_posts:
  assumes "baseUrl req = Some b" and "b \<noteq> []"
  shows "posts (snd (generateContent w req)) = [build_request req b (projr (build_body req))]"
proof -
  have "build_body req = Inr (projr (build_body req))"
    by (simp add: build_body_eq)
  then have "posts (snd (compatible_mode w req b)) = [build_request req b (projr (build_body req))]"
    by (rule compatible_mode_posts)
  with assms show ?thesis
    by (simp add: generateContent_compatible)
qed

lemma generateContent_result:
  assumes "baseUrl req = Some b" and "b \<noteq> []"
  shows "fst (generateContent w req) =
         fst (catch_block (try_block (fetch w (build_request req b (projr (build_body req))))))"
proof -
  have "build_body req = Inr (projr (build_body req))"
    by (simp add: build_body_eq)
  then have "fst (compatible_mode w req b) =
             fst (catch_block (try_block (fetch w (build_request req b (projr (build_body req))))))"
    by (rule compatible_mode_result)
  with assms show ?thesis
    by (simp add: generateContent_compatible)
qed

lemma posts_singletonD:
  assumes "posts (snd (generateContent w req)) = [rq]"
  shows "\<exists>b. baseUrl req = Some b \<and> b \<noteq> [] \<and>
             rq = build_request req b (projr (build_body req))"
proof (cases "baseUrl req = None \<or> baseUrl req = Some []")
  case True
  then have "posts (snd (generateContent w req)) = []"
    by (simp add: generateContent_native native_mode_posts)
  with assms show ?thesis by simp
next
  case False
  then obtain b where b: "baseUrl req = Some b" "b \<noteq> []"
    by (cases "baseUrl req") auto
  from generateContent_posts[OF b, of w] assms
  have "rq = build_request req b (projr (build_body req))" by simp
  with b show ?thesis by blast
qed

lemma sdk_calls_singletonD:
  assumes "sdk_calls (snd (generateContent w req)) = [c]"
  shows "(baseUrl req = None \<or> baseUrl req = Some []) \<and> c = build_call req"
proof (cases "baseUrl req = None \<or> baseUrl req = Some []")
  case True
  then have "sdk_calls (snd (generateContent w req)) = [build_call req]"
    by (simp add: generateContent_native native_mode_sdk_calls)
  with assms True show ?thesis by simp
next
  case False
  then obtain b where b: "baseUrl req = Some b" "b \<noteq> []"
    by (cases "baseUrl req") auto
  then have "sdk_calls (snd (generateContent w req)) = []"
    by (simp add: generateContent_compatible compatible_mode_sdk_calls)
  with assms show ?thesis by simp
qed

lemma posted_result:
  assumes "posts (snd (generateContent w req)) = [rq]"
  shows "fst (generateContent w req) = fst (catch_block (try_block (fetch w rq)))"
proof -
  from posts_singletonD[OF assms] obtain b where
    b: "baseUrl req = Some b" "b \<noteq> []" and rq: "rq = build_request req b (projr (build_body req))"
    by blast
  from generateContent_result[OF b, of w] rq show ?thesis by simp
qed

text \<open>
  C1. The POST of the first path is made exactly when \<open>baseUrl\<close> is present and not
  the empty string, and then the SDK is not called; the SDK is called exactly when
  \<open>baseUrl\<close> is absent or the empty string, and then no POST is made.
\<close>

theorem path_selection:
  "((\<exists>b. baseUrl req = Some b \<and> b \<noteq> []) \<longleftrightarrow>
      length (posts (snd (generateContent w req))) = 1 \<and>
      sdk_calls (snd (generateContent w req)) = []) \<and>
   ((baseUrl req = None \<or> baseUrl req = Some []) \<longleftrightarrow>
      posts (snd (generateContent w req)) = [] \<and>
      length (sdk_calls (snd (generateContent w req))) = 1)"
proof (cases "\<exists>b. baseUrl req = Some b \<and> b \<noteq> []")
  case True
  then obtain b where b: "baseUrl req = Some b" "b \<noteq> []" by blast
  have "generateContent w req = compatible_mode w req b"
    using b by (rule generateContent_compatible)
  then have "posts (snd (generateContent w req)) = [build_request req b (projr (build_body req))]"
    and "sdk_calls (snd (generateContent w req)) = []"
    by (simp_all add: compatible_mode_posts compatible_mode_sdk_calls build_body_eq)
  with b show ?thesis by simp
next
  case False
  then have native: "baseUrl req = None \<or> baseUrl req = Some []"
    by (cases "baseUrl req") auto
  then have "generateContent w req = native_mode w req"
    by (rule generateContent_native)
  then have "posts (snd (generateContent w req)) = []"
    and "sdk_calls (snd (generateContent w req)) = [build_call req]"
    by (simp_all add: native_mode_posts native_mode_sdk_calls)
  with False native show ?thesis by simp
qed

theorem path_selection_witness:
  "length (posts (snd (generateContent
      \<lparr>fetch = always (Inl (Error ''offline'')),
       sdk_generateContent = always (Inr \<lparr>response_text = Some ''text''\<rparr>)\<rparr>
      \<lparr>apiKey = ''key'', model = ''m'', baseUrl = Some ''https://x.test/v1/'', prompt = ''hi'',
       systemInstruction = None, image_data = None, mimeType = None,
       jsonSchema = JUndefined\<rparr>))) = 1 \<and>
   sdk_calls (snd (generateContent
      \<lparr>fetch = always (Inl (Error ''offline'')),
       sdk_generateContent = always (Inr \<lparr>response_text = Some ''text''\<rparr>)\<rparr>
      \<lparr>apiKey = ''key'', model = ''m'', baseUrl = Some ''https://x.test/v1/'', prompt = ''hi'',
       systemInstruction = None, image_data = None, mimeType = None,
       jsonSchema = JUndefined\<rparr>)) = [] \<and>
   posts (snd (generateContent
      \<lparr>fetch = always (Inl (Error ''offline'')),
       sdk_generateContent = always (Inr \<lparr>response_text = Some ''text''\<rparr>)\<rparr>
      \<lparr>apiKey = ''key'', model = ''m'', baseUrl = Some '''', prompt = ''hi'',
       systemInstruction = None, image_data = None, mimeType = None,
       jsonSchema = JUndefined\<rparr>)) = [] \<and>
   length (sdk_calls (snd (generateContent
      \<lparr>fetch = always (Inl (Error ''offline'')),
       sdk_generateContent = always (Inr \<lparr>response_text = Some ''text''\<rparr>)\<rparr>
      \<lparr>apiKey = ''key'', model = ''m'', baseUrl = Some '''', prompt = ''hi'',
       systemInstruction = None, image_data = None, mimeType = None,
       jsonSchema = JUndefined\<rparr>))) = 1"
  using
    path_selection [of
      "\<lparr>apiKey = ''key'', model = ''m'', baseUrl = Some ''https://x.test/v1/'', prompt = ''hi'',
        systemInstruction = None, image_data = None, mimeType = None,
        jsonSchema = JUndefined\<rparr>"
      "\<lparr>fetch = always (Inl (Error ''offline'')),
        sdk_generateContent = always (Inr \<lparr>response_text = Some ''text''\<rparr>)\<rparr>"]
    path_selection [of
      "\<lparr>apiKey = ''key'', model = ''m'', baseUrl = Some '''', prompt = ''hi'',
        systemInstruction = None, image_data = None, mimeType = None,
        jsonSchema = JUndefined\<rparr>"
      "\<lparr>fetch = always (Inl (Error ''offline'')),
        sdk_generateContent = always (Inr \<lparr>response_text = Some ''text''\<rparr>)\<rparr>"]
  by simp

subsection \<open>The endpoint\<close>

text \<open>
  C2. On the first path the one POST goes to \<open>baseUrl\<close> with its trailing slashes
  stripped, as it is when that already ends with \<open>/chat/completions\<close> and with
  \<open>/chat/completions\<close> appended once otherwise.
\<close>

theorem endpoint_normalised:
  assumes "baseUrl req = Some b" and "b \<noteq> []"
  shows "map endpoint (posts (snd (generateContent w req))) =
         [if endsWith (strip_trailing_slashes_spec b) ''/chat/completions''
          then strip_trailing_slashes_spec b
          else strip_trailing_slashes_spec b @ ''/chat/completions'']"
  using generateContent_posts[OF assms, of w]
  by (simp add: build_request_def endpoint_of_def cleanBaseUrl_def replace_trailing_slashes_spec)

theorem endpoint_normalised_witness:
  "map endpoint (posts (snd (generateContent
      \<lparr>fetch = always (Inl (Error ''offline'')),
       sdk_generateContent = always (Inl (Error ''unused''))\<rparr>
      \<lparr>apiKey = ''key'', model = ''m'', baseUrl = Some ''https://x.test/v1/'', prompt = ''hi'',
       systemInstruction = None, image_data = None, mimeType = None,
       jsonSchema = JUndefined\<rparr>))) = [''https://x.test/v1/chat/completions''] \<and>
   map endpoint (posts (snd (generateContent
      \<lparr>fetch = always (Inl (Error ''offline'')),
       sdk_generateContent = always (Inl (Error ''unused''))\<rparr>
      \<lparr>apiKey = ''key'', model = ''m'', baseUrl = Some ''https://x.test/v1/chat/completions'',
       prompt = ''hi'', systemInstruction = None, image_data = None, mimeType = None,
       jsonSchema = JUndefined\<rparr>))) = [''https://x.test/v1/chat/completions'']"
proof -
  have one: "strip_trailing_slashes_spec ''https://x.test/v1/'' = ''https://x.test/v1''"
    by (simp add: strip_trailing_slashes_spec_def)
  have two: "strip_trailing_slashes_spec ''https://x.test/v1/chat/completions'' =
             ''https://x.test/v1/chat/completions''"
    by (simp add: strip_trailing_slashes_spec_def)
  show ?thesis
    using
      endpoint_normalised [of
        "\<lparr>apiKey = ''key'', model = ''m'', baseUrl = Some ''https://x.test/v1/'', prompt = ''hi'',
          systemInstruction = None, image_data = None, mimeType = None,
          jsonSchema = JUndefined\<rparr>"
        "''https://x.test/v1/''"
        "\<lparr>fetch = always (Inl (Error ''offline'')),
          sdk_generateContent = always (Inl (Error ''unused''))\<rparr>"]
      endpoint_normalised [of
        "\<lparr>apiKey = ''key'', model = ''m'', baseUrl = Some ''https://x.test/v1/chat/completions'',
          prompt = ''hi'', systemInstruction = None, image_data = None, mimeType = None,
          jsonSchema = JUndefined\<rparr>"
        "''https://x.test/v1/chat/completions''"
        "\<lparr>fetch = always (Inl (Error ''offline'')),
          sdk_generateContent = always (Inl (Error ''unused''))\<rparr>"]
    by (simp add: one two endsWith_def)
qed

subsection \<open>JSON mode on the first path\<close>

lemma append_json_hint_string:
  "content m = ContentString s \<Longrightarrow>
   append_json_hint (ms @ [m]) = Inr (ms @ [m\<lparr>content := ContentString (s @ json_suffix)\<rparr>])"
  by (simp add: append_json_hint_def)

lemma append_json_hint_parts:
  "content m = ContentParts (p # ps) \<Longrightarrow> part_text p = Some t \<Longrightarrow>
   append_json_hint (ms @ [m]) =
     Inr (ms @ [m\<lparr>content := ContentParts (p\<lparr>part_text := Some (t @ json_suffix)\<rparr> # ps)\<rparr>])"
  by (simp add: append_json_hint_def)

text \<open>
  C3, as the code has it. On the first path with a truthy \<open>jsonSchema\<close> the body sent
  has \<open>response_format = {type: "json_object"}\<close>, and its last message is the user
  message whose first part is the text part holding the prompt followed by the suffix.
  The suffix logic itself appends to a string content and to the text of the first part
  of an array content alike.
\<close>

theorem json_mode_request:
  assumes "baseUrl req = Some b" and "b \<noteq> []" and "truthy (jsonSchema req)"
  shows "map (\<lambda>rq. response_format (http_body rq)) (posts (snd (generateContent w req))) =
           [Some (ResponseFormat ''json_object'')] \<and>
         map (\<lambda>rq. last (body_messages (http_body rq))) (posts (snd (generateContent w req))) =
           [\<lparr>role = ''user'',
             content = ContentParts
               (text_part (prompt req @ ''\<newline>\<newline>Please respond in valid JSON format.'')
                # image_parts req)\<rparr>] \<and>
         (\<forall>ms m s. content m = ContentString s \<longrightarrow>
            append_json_hint (ms @ [m]) =
              Inr (ms @ [m\<lparr>content := ContentString
                    (s @ ''\<newline>\<newline>Please respond in valid JSON format.'')\<rparr>])) \<and>
         (\<forall>ms m p ps t. content m = ContentParts (p # ps) \<and> part_text p = Some t \<longrightarrow>
            append_json_hint (ms @ [m]) =
              Inr (ms @ [m\<lparr>content := ContentParts
                    (p\<lparr>part_text := Some
                        (t @ ''\<newline>\<newline>Please respond in valid JSON format.'')\<rparr> # ps)\<rparr>]))"
proof -
  have sent: "posts (snd (generateContent w req)) = [build_request req b (projr (build_body req))]"
    using assms(1,2) by (rule generateContent_posts)
  have "map (\<lambda>rq. response_format (http_body rq)) (posts (snd (generateContent w req))) =
          [Some (ResponseFormat ''json_object'')]"
    using assms(3) by (simp add: sent build_request_def build_body_eq)
  moreover
  have "map (\<lambda>rq. last (body_messages (http_body rq))) (posts (snd (generateContent w req))) =
          [\<lparr>role = ''user'',
            content = ContentParts
              (text_part (prompt req @ ''\<newline>\<newline>Please respond in valid JSON format.'')
               # image_parts req)\<rparr>]"
    using assms(3) by (simp add: sent build_request_def build_body_eq json_suffix_def)
  moreover
  have "\<forall>ms m s. content m = ContentString s \<longrightarrow>
          append_json_hint (ms @ [m]) =
            Inr (ms @ [m\<lparr>content := ContentString
                  (s @ ''\<newline>\<newline>Please respond in valid JSON format.'')\<rparr>])"
    using append_json_hint_string by (simp add: json_suffix_def)
  moreover
  have "\<forall>ms m p ps t. content m = ContentParts (p # ps) \<and> part_text p = Some t \<longrightarrow>
          append_json_hint (ms @ [m]) =
            Inr (ms @ [m\<lparr>content := ContentParts
                  (p\<lparr>part_text := Some
                      (t @ ''\<newline>\<newline>Please respond in valid JSON format.'')\<rparr> # ps)\<rparr>])"
    using append_json_hint_parts by (simp add: json_suffix_def)
  ultimately show ?thesis by blast
qed

lemmas run_defs =
  generateContent_def compatible_mode_def native_mode_def build_body_def append_json_hint_def
  build_messages_def system_messages_def user_content_def image_parts_def text_part_def
  image_url_part_def mimeType_local_def json_suffix_def build_request_def endpoint_of_def
  cleanBaseUrl_def endsWith_def try_block_def catch_block_def extract_content_def nullish_def
  build_call_def build_parts_def inline_parts_def build_config_def always_def Let_def

theorem json_mode_request_witness:
  "response_format (http_body (hd (posts (snd (generateContent
      \<lparr>fetch = always (Inl (Error ''offline'')),
       sdk_generateContent = always (Inl (Error ''unused''))\<rparr>
      \<lparr>apiKey = ''key'', model = ''m'', baseUrl = Some ''https://x.test/v1'', prompt = ''hi'',
       systemInstruction = Some ''sys'', image_data = None, mimeType = None,
       jsonSchema = JObj [(''type'', JStr ''object'')]\<rparr>))))) =
     Some (ResponseFormat ''json_object'') \<and>
   last (body_messages (http_body (hd (posts (snd (generateContent
      \<lparr>fetch = always (Inl (Error ''offline'')),
       sdk_generateContent = always (Inl (Error ''unused''))\<rparr>
      \<lparr>apiKey = ''key'', model = ''m'', baseUrl = Some ''https://x.test/v1'', prompt = ''hi'',
       systemInstruction = Some ''sys'', image_data = None, mimeType = None,
       jsonSchema = JObj [(''type'', JStr ''object'')]\<rparr>)))))) =
     \<lparr>role = ''user'',
      content = ContentParts
        [\<lparr>part_type = ''text'',
          part_text = Some ''hi\<newline>\<newline>Please respond in valid JSON format.'',
          image_url = None\<rparr>]\<rparr>"
  (is "response_format (http_body (hd (posts (snd (generateContent ?W ?R))))) = _ \<and> _")
proof -
  have a: "baseUrl ?R = Some ''https://x.test/v1''" by simp
  have b: "''https://x.test/v1'' \<noteq> []" by simp
  have c: "truthy (jsonSchema ?R)" by simp
  have sent: "posts (snd (generateContent ?W ?R)) =
              [build_request ?R ''https://x.test/v1'' (projr (build_body ?R))]"
    using a b by (rule generateContent_posts)
  from json_mode_request [OF a b c, of ?W] show ?thesis
    by (simp add: sent image_parts_def text_part_def)
qed

theorem json_mode_falsy_schema_counterexample:
  "posts (snd (generateContent
      \<lparr>fetch = always (Inl (Error ''offline'')),
       sdk_generateContent = always (Inl (Error ''unused''))\<rparr>
      \<lparr>apiKey = ''key'', model = ''m'', baseUrl = Some ''https://x.test/v1'', prompt = ''hi'',
       systemInstruction = None, image_data = None, mimeType = None,
       jsonSchema = JBool False\<rparr>)) =
     [\<lparr>endpoint = ''https://x.test/v1/chat/completions'', http_method = ''POST'',
       headers = [(''Content-Type'', ''application/json''), (''Authorization'', ''Bearer key'')],
       http_body =
         \<lparr>body_model = ''m'',
          body_messages =
            [\<lparr>role = ''user'',
              content = ContentParts
                [\<lparr>part_type = ''text'', part_text = Some ''hi'', image_url = None\<rparr>]\<rparr>],
          stream = False,
          response_format = None\<rparr>\<rparr>]"
  by (simp add: run_defs)

subsection \<open>The response on the first path\<close>

text \<open>
  C4, as the code has it. When the POST is answered by a response that is not \<open>ok\<close>,
  the promise is rejected. When the body of that response is read as the text
  \<open>errorText\<close>, the message of the error is \<open>AI Request Failed: API Error\<close>, the status
  in decimal, a colon and \<open>errorText\<close>. When reading the body fails with the error \<open>e\<close>,
  the message is \<open>AI Request Failed:\<close> and the message of \<open>e\<close>, without the status.
\<close>

theorem http_error_message:
  assumes "posts (snd (generateContent w req)) = [rq]"
    and "fetch w rq = Inr response"
    and "\<not> ok response"
  shows "(\<exists>e. fst (generateContent w req) = Inl e) \<and>
         (\<forall>errorText. text_result response = Inr errorText \<longrightarrow>
            fst (generateContent w req) =
              Inl (Error (''AI Request Failed: API Error '' @ string_of_nat (status response)
                          @ '': '' @ errorText))) \<and>
         (\<forall>e. text_result response = Inl e \<longrightarrow>
            fst (generateContent w req) = Inl (Error (''AI Request Failed: '' @ message e)))"
proof -
  have "fst (generateContent w req) = fst (catch_block (try_block (Inr response)))"
    using posted_result[OF assms(1)] assms(2) by simp
  with assms(3) show ?thesis
    by (cases "text_result response") (simp_all add: try_block_def catch_block_def)
qed

lemma string_of_nat_500: "string_of_nat 500 = ''500''"
  by (simp add: string_of_nat.simps)

theorem http_error_message_witness:
  "fst (generateContent
      \<lparr>fetch = always (Inr \<lparr>ok = False, status = 500, text_result = Inr ''server error'',
                             json_result = Inl (Error ''Unexpected token'')\<rparr>),
       sdk_generateContent = always (Inl (Error ''unused''))\<rparr>
      \<lparr>apiKey = ''key'', model = ''m'', baseUrl = Some ''https://x.test/v1'', prompt = ''hi'',
       systemInstruction = None, image_data = None, mimeType = None,
       jsonSchema = JUndefined\<rparr>) =
     Inl (Error ''AI Request Failed: API Error 500: server error'')"
  (is "fst (generateContent ?W ?R) = _")
proof -
  let ?resp = "\<lparr>ok = False, status = 500, text_result = Inr ''server error'',
                json_result = Inl (Error ''Unexpected token'')\<rparr>"
  let ?rq = "build_request ?R ''https://x.test/v1'' (projr (build_body ?R))"
  have sent: "posts (snd (generateContent ?W ?R)) = [?rq]"
    by (rule generateContent_posts) simp_all
  have answered: "fetch ?W ?rq = Inr ?resp"
    by (simp add: always_def)
  have failed: "\<not> ok ?resp" by simp
  from http_error_message [OF sent answered failed] show ?thesis
    by (simp add: string_of_nat_500)
qed

theorem unreadable_error_body_counterexample:
  "fst (generateContent
      \<lparr>fetch = always (Inr \<lparr>ok = False, status = 502, text_result = Inl (Error ''stream broke''),
                             json_result = Inl (Error ''stream broke'')\<rparr>),
       sdk_generateContent = always (Inl (Error ''unused''))\<rparr>
      \<lparr>apiKey = ''key'', model = ''m'', baseUrl = Some ''https://x.test/v1'', prompt = ''hi'',
       systemInstruction = None, image_data = None, mimeType = None,
       jsonSchema = JUndefined\<rparr>) =
     Inl (Error ''AI Request Failed: stream broke'')"
  by (simp add: run_defs)

lemma extract_content_spec:
  "\<not> nullish data \<Longrightarrow> extract_content data = Inr (content_path_spec data)"
  by (auto simp: extract_content_def content_path_spec_def nullish_def Let_def)

lemma extract_content_null:
  "nullish data \<Longrightarrow> \<exists>e. extract_content data = Inl e"
  by (auto simp: extract_content_def nullish_def)

lemma ok_response_result:
  assumes "posts (snd (generateContent w req)) = [rq]"
    and "fetch w rq = Inr response"
    and "ok response"
    and "json_result response = Inr data"
  shows "fst (generateContent w req) =
         fst (catch_block
               (case extract_content data of
                  Inl e \<Rightarrow> Inl e
                | Inr result \<Rightarrow>
                    if \<not> truthy result then Inl (Error ''No content in response'')
                    else Inr result))"
  using posted_result[OF assms(1)] assms(2,3,4)
  by (simp add: try_block_def)

text \<open>
  C5, as the code has it. When the POST is answered by an \<open>ok\<close> response whose body
  parses to a value other than \<open>null\<close>, the promise resolves to the value at
  \<open>choices[0].message.content\<close> when that is truthy (a string that is not empty, among
  others), and is rejected with the message
  \<open>AI Request Failed: No content in response\<close> when it is missing or falsy.
\<close>

theorem content_extraction:
  assumes "posts (snd (generateContent w req)) = [rq]"
    and "fetch w rq = Inr response"
    and "ok response"
    and "json_result response = Inr data"
    and "\<not> nullish data"
  shows "(truthy (content_path_spec data) \<longrightarrow>
            fst (generateContent w req) = Inr (content_path_spec data)) \<and>
         (\<not> truthy (content_path_spec data) \<longrightarrow>
            fst (generateContent w req) =
              Inl (Error ''AI Request Failed: No content in response''))"
  using ok_response_result[OF assms(1-4)] extract_content_spec[OF assms(5)]
  by (simp add: catch_block_def)

theorem content_extraction_witness:
  "fst (generateContent
      \<lparr>fetch = always (Inr \<lparr>ok = True, status = 200, text_result = Inl (Error ''body used''),
          json_result = Inr (JObj [(''choices'',
            JArr [JObj [(''message'', JObj [(''content'', JStr ''hello'')])]])])\<rparr>),
       sdk_generateContent = always (Inl (Error ''unused''))\<rparr>
      \<lparr>apiKey = ''key'', model = ''m'', baseUrl = Some ''https://x.test/v1'', prompt = ''hi'',
       systemInstruction = None, image_data = None, mimeType = None,
       jsonSchema = JUndefined\<rparr>) = Inr (JStr ''hello'')"
  (is "fst (generateContent ?W ?R) = _")
proof -
  let ?data = "JObj [(''choices'',
                 JArr [JObj [(''message'', JObj [(''content'', JStr ''hello'')])]])]"
  let ?resp = "\<lparr>ok = True, status = 200, text_result = Inl (Error ''body used''),
                json_result = Inr ?data\<rparr>"
  let ?rq = "build_request ?R ''https://x.test/v1'' (projr (build_body ?R))"
  have sent: "posts (snd (generateContent ?W ?R)) = [?rq]"
    by (rule generateContent_posts) simp_all
  have answered: "fetch ?W ?rq = Inr ?resp"
    by (simp add: always_def)
  have good: "ok ?resp" by simp
  have parsed: "json_result ?resp = Inr ?data" by simp
  have present: "\<not> nullish ?data" by (simp add: nullish_def)
  from content_extraction [OF sent answered good parsed present] show ?thesis
    by (simp add: content_path_spec_def)
qed

theorem no_content_message_counterexample:
  "fst (generateContent
      \<lparr>fetch = always (Inr \<lparr>ok = True, status = 200, text_result = Inl (Error ''body used''),
          json_result = Inr (JObj [(''choices'', JArr [])])\<rparr>),
       sdk_generateContent = always (Inl (Error ''unused''))\<rparr>
      \<lparr>apiKey = ''key'', model = ''m'', baseUrl = Some ''https://x.test/v1'', prompt = ''hi'',
       systemInstruction = None, image_data = None, mimeType = None,
       jsonSchema = JUndefined\<rparr>) =
     Inl (Error ''AI Request Failed: No content in response'') \<and>
   fst (generateContent
      \<lparr>fetch = always (Inr \<lparr>ok = True, status = 200, text_result = Inl (Error ''body used''),
          json_result = Inr (JObj [(''choices'', JArr [])])\<rparr>),
       sdk_generateContent = always (Inl (Error ''unused''))\<rparr>
      \<lparr>apiKey = ''key'', model = ''m'', baseUrl = Some ''https://x.test/v1'', prompt = ''hi'',
       systemInstruction = None, image_data = None, mimeType = None,
       jsonSchema = JUndefined\<rparr>) \<noteq>
     Inl (Error ''No content in response'')"
  by (simp add: run_defs)

subsection \<open>The response on the second path\<close>

lemma compatible_ok_result:
  assumes "baseUrl req = Some b" and "b \<noteq> []"
    and "build_body req = Inr body"
    and "fetch w (build_request req b body) = Inr response"
    and "ok response"
    and "json_result response = Inr data"
  shows "fst (generateContent w req) =
         fst (catch_block
               (case extract_content data of
                  Inl e \<Rightarrow> Inl e
                | Inr result \<Rightarrow>
                    if \<not> truthy result then Inl (Error ''No content in response'')
                    else Inr result))"
  using generateContent_result[OF assms(1,2), of w] assms(3-6)
  by (simp add: try_block_def)

text \<open>
  C6. On the second path, that is with \<open>baseUrl\<close> absent or the empty string, the SDK
  is called once, and when it answers with a response the promise resolves to the text
  of the response, and to the empty string when the response has no text. The first path
  differs: the body of the request is always built, and an \<open>ok\<close> response to the POST
  whose \<open>choices[0].message.content\<close> is missing or the empty string rejects the promise.
\<close>

theorem native_text_or_empty:
  "((baseUrl req = None \<or> baseUrl req = Some []) \<and>
    sdk_generateContent w (build_call req) = Inr response \<longrightarrow>
      sdk_calls (snd (generateContent w req)) = [build_call req] \<and>
      fst (generateContent w req) =
        Inr (JStr (case response_text response of None \<Rightarrow> '''' | Some t \<Rightarrow> t))) \<and>
   (\<exists>body. build_body req' = Inr body) \<and>
   (baseUrl req' = Some b \<and> b \<noteq> [] \<and> build_body req' = Inr body' \<and>
    fetch w' (build_request req' b body') = Inr response' \<and>
    ok response' \<and> json_result response' = Inr data \<and>
    (content_path_spec data = JUndefined \<or> content_path_spec data = JStr '''') \<longrightarrow>
      (\<exists>e. fst (generateContent w' req') = Inl e))"
proof (intro conjI impI)
  assume h: "(baseUrl req = None \<or> baseUrl req = Some []) \<and>
    sdk_generateContent w (build_call req) = Inr response"
  then have native: "generateContent w req = native_mode w req"
    by (simp add: generateContent_native)
  then show "sdk_calls (snd (generateContent w req)) = [build_call req]"
    by (simp add: native_mode_sdk_calls)
  from native h show "fst (generateContent w req) =
      Inr (JStr (case response_text response of None \<Rightarrow> '''' | Some t \<Rightarrow> t))"
    by (simp add: native_mode_def split: option.splits)
next
  show "\<exists>body. build_body req' = Inr body"
    by (simp add: build_body_eq)
next
  assume h: "baseUrl req' = Some b \<and> b \<noteq> [] \<and> build_body req' = Inr body' \<and>
    fetch w' (build_request req' b body') = Inr response' \<and>
    ok response' \<and> json_result response' = Inr data \<and>
    (content_path_spec data = JUndefined \<or> content_path_spec data = JStr '''')"
  then have "baseUrl req' = Some b" and "b \<noteq> []" and "build_body req' = Inr body'"
    and "fetch w' (build_request req' b body') = Inr response'"
    and "ok response'" and "json_result response' = Inr data"
    by simp_all
  then have res: "fst (generateContent w' req') =
         fst (catch_block
               (case extract_content data of
                  Inl e \<Rightarrow> Inl e
                | Inr result \<Rightarrow>
                    if \<not> truthy result then Inl (Error ''No content in response'')
                    else Inr result))"
    by (rule compatible_ok_result)
  show "\<exists>e. fst (generateContent w' req') = Inl e"
  proof (cases "nullish data")
    case True
    from extract_content_null[OF this] res show ?thesis
      by (auto simp: catch_block_def)
  next
    case False
    from extract_content_spec[OF this] res h show ?thesis
      by (auto simp: catch_block_def)
  qed
qed

theorem native_text_or_empty_witness:
  "fst (generateContent
      \<lparr>fetch = always (Inl (Error ''unused'')),
       sdk_generateContent = always (Inr \<lparr>response_text = Some ''abc''\<rparr>)\<rparr>
      \<lparr>apiKey = ''key'', model = ''m'', baseUrl = None, prompt = ''hi'',
       systemInstruction = None, image_data = None, mimeType = None,
       jsonSchema = JUndefined\<rparr>) = Inr (JStr ''abc'') \<and>
   sdk_calls (snd (generateContent
      \<lparr>fetch = always (Inl (Error ''unused'')),
       sdk_generateContent = always (Inr \<lparr>response_text = Some ''abc''\<rparr>)\<rparr>
      \<lparr>apiKey = ''key'', model = ''m'', baseUrl = None, prompt = ''hi'',
       systemInstruction = None, image_data = None, mimeType = None,
       jsonSchema = JUndefined\<rparr>)) =
     [\<lparr>sdk_apiKey = ''key'', sdk_model = ''m'', parts = [TextPart ''hi''],
       config = \<lparr>cfg_systemInstruction = None, responseMimeType = None,
                 responseSchema = None\<rparr>\<rparr>] \<and>
   fst (generateContent
      \<lparr>fetch = always (Inl (Error ''unused'')),
       sdk_generateContent = always (Inr \<lparr>response_text = None\<rparr>)\<rparr>
      \<lparr>apiKey = ''key'', model = ''m'', baseUrl = Some '''', prompt = ''hi'',
       systemInstruction = None, image_data = None, mimeType = None,
       jsonSchema = JUndefined\<rparr>) = Inr (JStr '''') \<and>
   fst (generateContent
      \<lparr>fetch = always (Inr \<lparr>ok = True, status = 200, text_result = Inl (Error ''body used''),
          json_result = Inr (JObj [(''choices'',
            JArr [JObj [(''message'', JObj [(''content'', JStr '''')])]])])\<rparr>),
       sdk_generateContent = always (Inl (Error ''unused''))\<rparr>
      \<lparr>apiKey = ''key'', model = ''m'', baseUrl = Some ''https://x.test/v1'', prompt = ''hi'',
       systemInstruction = None, image_data = None, mimeType = None,
       jsonSchema = JUndefined\<rparr>) =
     Inl (Error ''AI Request Failed: No content in response'')"
  (is "fst (generateContent ?W1 ?R1) = _ \<and> sdk_calls (snd (generateContent ?W1 ?R1)) = _ \<and>
       fst (generateContent ?W2 ?R2) = _ \<and> fst (generateContent ?W3 ?R3) = _")
proof -
  let ?data = "JObj [(''choices'',
                 JArr [JObj [(''message'', JObj [(''content'', JStr '''')])]])]"
  let ?resp = "\<lparr>ok = True, status = 200, text_result = Inl (Error ''body used''),
                json_result = Inr ?data\<rparr>"
  let ?body = "projr (build_body ?R3)"
  have absent: "baseUrl ?R1 = None \<or> baseUrl ?R1 = Some []" by simp
  have replied1: "sdk_generateContent ?W1 (build_call ?R1) = Inr \<lparr>response_text = Some ''abc''\<rparr>"
    by (simp add: always_def)
  have empty_url: "baseUrl ?R2 = None \<or> baseUrl ?R2 = Some []" by simp
  have replied2: "sdk_generateContent ?W2 (build_call ?R2) = Inr \<lparr>response_text = None\<rparr>"
    by (simp add: always_def)
  have built: "build_body ?R3 = Inr ?body"
    by (simp add: build_body_eq)
  have answered: "fetch ?W3 (build_request ?R3 ''https://x.test/v1'' ?body) = Inr ?resp"
    by (simp add: always_def)
  have empty: "content_path_spec ?data = JStr ''''"
    by (simp add: content_path_spec_def)
  have first: "sdk_calls (snd (generateContent ?W1 ?R1)) = [build_call ?R1] \<and>
               fst (generateContent ?W1 ?R1) = Inr (JStr ''abc'')"
    using native_text_or_empty [of ?R1 ?W1 "\<lparr>response_text = Some ''abc''\<rparr>"]
      absent replied1 by simp
  have second: "fst (generateContent ?W2 ?R2) = Inr (JStr '''')"
    using native_text_or_empty [of ?R2 ?W2 "\<lparr>response_text = None\<rparr>"]
      empty_url replied2 by simp
  have "\<exists>e. fst (generateContent ?W3 ?R3) = Inl e"
    using native_text_or_empty [of ?R3 ?W3 _ ?R3 "''https://x.test/v1''" ?body ?W3 ?resp ?data]
      built answered empty by simp
  moreover have "fst (generateContent ?W3 ?R3) =
                 fst (catch_block (try_block (fetch ?W3
                        (build_request ?R3 ''https://x.test/v1'' ?body))))"
    by (rule generateContent_result) simp_all
  ultimately have third: "fst (generateContent ?W3 ?R3) =
                Inl (Error ''AI Request Failed: No content in response'')"
    by (simp add: always_def try_block_def catch_block_def extract_content_def nullish_def)
  from first second third show ?thesis
    by (simp add: build_call_def build_parts_def inline_parts_def build_config_def)
qed

subsection \<open>The image\<close>

lemma generateContent_sdk_calls:
  "baseUrl req = None \<or> baseUrl req = Some [] \<Longrightarrow>
   sdk_calls (snd (generateContent w req)) = [build_call req]"
  by (simp add: generateContent_native native_mode_sdk_calls)

lemma sent_user_parts:
  assumes "baseUrl req = Some b" and "b \<noteq> []"
  shows "map (\<lambda>rq. parts_of (content (last (body_messages (http_body rq)))))
           (posts (snd (generateContent w req))) =
         [text_part (prompt req @ (if truthy (jsonSchema req) then json_suffix else []))
          # image_parts req]"
  using generateContent_posts[OF assms, of w]
  by (simp add: build_request_def build_body_eq)

text \<open>
  C7, as the code has it. With \<open>mimeType\<close> absent and \<open>image\<close> present and not the
  empty string, the MIME type is \<open>image/png\<close>: the image part of the user message sent on
  the first path has the URL \<open>data:image/png;base64,\<close> followed by the image, and the
  inline-data part of the SDK call on the second path has the MIME type \<open>image/png\<close>.
\<close>

theorem default_mime_type:
  assumes "mimeType req = None" and "image_data req = Some img" and "img \<noteq> []"
  shows "mimeType_local req = ''image/png'' \<and>
         (\<forall>b. baseUrl req = Some b \<and> b \<noteq> [] \<longrightarrow>
            map (\<lambda>rq. filter (\<lambda>p. part_type p = ''image_url'')
                        (parts_of (content (last (body_messages (http_body rq))))))
              (posts (snd (generateContent w req))) =
            [[\<lparr>part_type = ''image_url'', part_text = None,
               image_url = Some (''data:image/png;base64,'' @ img)\<rparr>]]) \<and>
         (baseUrl req = None \<or> baseUrl req = Some [] \<longrightarrow>
            map (\<lambda>c. filter is_inline_data (parts c)) (sdk_calls (snd (generateContent w req))) =
            [[InlineData ''image/png'' img]])"
proof (intro conjI allI impI)
  show mime: "mimeType_local req = ''image/png''"
    using assms(1) by (simp add: mimeType_local_def)
  {
    fix b
    assume "baseUrl req = Some b \<and> b \<noteq> []"
    then have b: "baseUrl req = Some b" "b \<noteq> []" by simp_all
    have "map (\<lambda>rq. parts_of (content (last (body_messages (http_body rq)))))
                 (posts (snd (generateContent w req))) =
               [text_part (prompt req @ (if truthy (jsonSchema req) then json_suffix else []))
                # image_parts req]"
      using b by (rule sent_user_parts)
    then have "map (\<lambda>rq. filter (\<lambda>p. part_type p = ''image_url'')
                        (parts_of (content (last (body_messages (http_body rq))))))
              (posts (snd (generateContent w req))) =
            [filter (\<lambda>p. part_type p = ''image_url'')
               (text_part (prompt req @ (if truthy (jsonSchema req) then json_suffix else []))
                # image_parts req)]"
      by (cases "posts (snd (generateContent w req))") auto
    then show "map (\<lambda>rq. filter (\<lambda>p. part_type p = ''image_url'')
                        (parts_of (content (last (body_messages (http_body rq))))))
              (posts (snd (generateContent w req))) =
            [[\<lparr>part_type = ''image_url'', part_text = None,
               image_url = Some (''data:image/png;base64,'' @ img)\<rparr>]]"
      using assms(2,3) mime
      by (simp add: image_parts_def text_part_def image_url_part_def)
  }
  {
    assume "baseUrl req = None \<or> baseUrl req = Some []"
    then have "sdk_calls (snd (generateContent w req)) = [build_call req]"
      by (rule generateContent_sdk_calls)
    then show "map (\<lambda>c. filter is_inline_data (parts c)) (sdk_calls (snd (generateContent w req))) =
            [[InlineData ''image/png'' img]]"
      using assms(2,3) mime
      by (simp add: build_call_def build_parts_def inline_parts_def)
  }
qed

theorem default_mime_type_witness:
  "parts_of (content (last (body_messages (http_body (hd (posts (snd (generateContent
      \<lparr>fetch = always (Inl (Error ''offline'')),
       sdk_generateContent = always (Inr \<lparr>response_text = Some ''text''\<rparr>)\<rparr>
      \<lparr>apiKey = ''key'', model = ''m'', baseUrl = Some ''https://x.test/v1'', prompt = ''hi'',
       systemInstruction = None, image_data = Some ''AAAA'', mimeType = None,
       jsonSchema = JUndefined\<rparr>)))))))) =
     [\<lparr>part_type = ''text'', part_text = Some ''hi'', image_url = None\<rparr>,
      \<lparr>part_type = ''image_url'', part_text = None,
       image_url = Some ''data:image/png;base64,AAAA''\<rparr>] \<and>
   parts (hd (sdk_calls (snd (generateContent
      \<lparr>fetch = always (Inl (Error ''offline'')),
       sdk_generateContent = always (Inr \<lparr>response_text = Some ''text''\<rparr>)\<rparr>
      \<lparr>apiKey = ''key'', model = ''m'', baseUrl = None, prompt = ''hi'',
       systemInstruction = None, image_data = Some ''AAAA'', mimeType = None,
       jsonSchema = JUndefined\<rparr>)))) =
     [InlineData ''image/png'' ''AAAA'', TextPart ''hi'']"
  (is "parts_of (content (last (body_messages (http_body (hd (posts (snd
         (generateContent ?W ?RA)))))))) = _ \<and>
       parts (hd (sdk_calls (snd (generateContent ?W ?RB)))) = _")
proof -
  have sentA: "posts (snd (generateContent ?W ?RA)) =
               [build_request ?RA ''https://x.test/v1'' (projr (build_body ?RA))]"
    by (rule generateContent_posts) simp_all
  have sentB: "sdk_calls (snd (generateContent ?W ?RB)) = [build_call ?RB]"
    by (rule generateContent_sdk_calls) simp
  have mA: "mimeType_local ?RA = ''image/png''"
    using default_mime_type [of ?RA "''AAAA''" ?W] by simp
  have mB: "mimeType_local ?RB = ''image/png''"
    using default_mime_type [of ?RB "''AAAA''" ?W] by simp
  show ?thesis
    by (simp add: sentA sentB build_request_def build_body_eq image_parts_def text_part_def
                  image_url_part_def build_call_def build_parts_def inline_parts_def mA mB)
qed

theorem empty_image_no_image_part_counterexample:
  "posts (snd (generateContent
      \<lparr>fetch = always (Inl (Error ''offline'')),
       sdk_generateContent = always (Inr \<lparr>response_text = Some ''text''\<rparr>)\<rparr>
      \<lparr>apiKey = ''key'', model = ''m'', baseUrl = Some ''https://x.test/v1'', prompt = ''hi'',
       systemInstruction = None, image_data = Some '''', mimeType = None,
       jsonSchema = JUndefined\<rparr>)) =
     [\<lparr>endpoint = ''https://x.test/v1/chat/completions'', http_method = ''POST'',
       headers = [(''Content-Type'', ''application/json''), (''Authorization'', ''Bearer key'')],
       http_body =
         \<lparr>body_model = ''m'',
          body_messages =
            [\<lparr>role = ''user'',
              content = ContentParts
                [\<lparr>part_type = ''text'', part_text = Some ''hi'', image_url = None\<rparr>]\<rparr>],
          stream = False,
          response_format = None\<rparr>\<rparr>] \<and>
   sdk_calls (snd (generateContent
      \<lparr>fetch = always (Inl (Error ''offline'')),
       sdk_generateContent = always (Inr \<lparr>response_text = Some ''text''\<rparr>)\<rparr>
      \<lparr>apiKey = ''key'', model = ''m'', baseUrl = None, prompt = ''hi'',
       systemInstruction = None, image_data = Some '''', mimeType = None,
       jsonSchema = JUndefined\<rparr>)) =
     [\<lparr>sdk_apiKey = ''key'', sdk_model = ''m'', parts = [TextPart ''hi''],
       config = \<lparr>cfg_systemInstruction = None, responseMimeType = None,
                 responseSchema = None\<rparr>\<rparr>]"
  by (simp add: run_defs)

subsection \<open>The order of the parts\<close>

text \<open>
  C8, as the code has it. On the second path with \<open>image\<close> present and not the empty
  string, the parts are the inline-data part and then the text part holding the prompt;
  with \<open>image\<close> absent or the empty string they are the text part alone. On the first
  path with \<open>image\<close> present and not the empty string, the array \<open>content\<close> is built
  as the text part holding the prompt and then the image part, and the user message
  that is sent holds these two parts in this order, the text followed by the suffix of
  the JSON mode when \<open>jsonSchema\<close> is truthy.
\<close>

theorem part_order:
  "(sdk_calls (snd (generateContent w req)) = [c] \<and> image_data req = Some img \<and> img \<noteq> [] \<longrightarrow>
      parts c = [InlineData (mimeType_local req) img, TextPart (prompt req)]) \<and>
   (sdk_calls (snd (generateContent w req)) = [c] \<and> \<not> truthy_str (image_data req) \<longrightarrow>
      parts c = [TextPart (prompt req)]) \<and>
   (posts (snd (generateContent w req)) = [rq] \<and> image_data req = Some img \<and> img \<noteq> [] \<longrightarrow>
      user_content req =
        [\<lparr>part_type = ''text'', part_text = Some (prompt req), image_url = None\<rparr>,
         \<lparr>part_type = ''image_url'', part_text = None,
          image_url = Some (''data:'' @ mimeType_local req @ '';base64,'' @ img)\<rparr>] \<and>
      map part_type (parts_of (content (last (body_messages (http_body rq))))) =
        [''text'', ''image_url''] \<and>
      map part_text (parts_of (content (last (body_messages (http_body rq))))) =
        [Some (prompt req @ (if truthy (jsonSchema req) then json_suffix else [])), None] \<and>
      map image_url (parts_of (content (last (body_messages (http_body rq))))) =
        [None, Some (''data:'' @ mimeType_local req @ '';base64,'' @ img)])"
proof (intro conjI impI)
  assume "sdk_calls (snd (generateContent w req)) = [c] \<and> image_data req = Some img \<and> img \<noteq> []"
  then have called: "sdk_calls (snd (generateContent w req)) = [c]"
    and "image_data req = Some img" and "img \<noteq> []"
    by simp_all
  moreover from sdk_calls_singletonD[OF called] have "c = build_call req" by simp
  ultimately have "c = build_call req" and "image_data req = Some img" and "img \<noteq> []"
    by simp_all
  then show "parts c = [InlineData (mimeType_local req) img, TextPart (prompt req)]"
    by (simp add: build_call_def build_parts_def inline_parts_def)
next
  assume "sdk_calls (snd (generateContent w req)) = [c] \<and> \<not> truthy_str (image_data req)"
  then have called: "sdk_calls (snd (generateContent w req)) = [c]"
    and none: "\<not> truthy_str (image_data req)"
    by simp_all
  from sdk_calls_singletonD[OF called] none
  have "c = build_call req" and "\<not> truthy_str (image_data req)"
    by simp_all
  then show "parts c = [TextPart (prompt req)]"
    by (cases "image_data req") (simp_all add: build_call_def build_parts_def inline_parts_def)
next
  assume h: "posts (snd (generateContent w req)) = [rq] \<and> image_data req = Some img \<and> img \<noteq> []"
  then have sent: "posts (snd (generateContent w req)) = [rq]"
    and img: "image_data req = Some img" "img \<noteq> []"
    by simp_all
  from posts_singletonD[OF sent] obtain b where
    b: "baseUrl req = Some b" "b \<noteq> []" by blast
  from sent_user_parts[OF b, of w] sent
  have sent_parts: "parts_of (content (last (body_messages (http_body rq)))) =
          text_part (prompt req @ (if truthy (jsonSchema req) then json_suffix else []))
          # image_parts req"
    by simp
  show "user_content req =
        [\<lparr>part_type = ''text'', part_text = Some (prompt req), image_url = None\<rparr>,
         \<lparr>part_type = ''image_url'', part_text = None,
          image_url = Some (''data:'' @ mimeType_local req @ '';base64,'' @ img)\<rparr>]"
    using img by (simp add: user_content_def image_parts_def text_part_def image_url_part_def)
  show "map part_type (parts_of (content (last (body_messages (http_body rq))))) =
        [''text'', ''image_url'']"
    using img by (simp add: sent_parts image_parts_def text_part_def image_url_part_def)
  show "map part_text (parts_of (content (last (body_messages (http_body rq))))) =
        [Some (prompt req @ (if truthy (jsonSchema req) then json_suffix else [])), None]"
    using img by (simp add: sent_parts image_parts_def text_part_def image_url_part_def)
  show "map image_url (parts_of (content (last (body_messages (http_body rq))))) =
        [None, Some (''data:'' @ mimeType_local req @ '';base64,'' @ img)]"
    using img by (simp add: sent_parts image_parts_def text_part_def image_url_part_def)
qed

theorem part_order_witness:
  "parts (hd (sdk_calls (snd (generateContent
      \<lparr>fetch = always (Inl (Error ''offline'')),
       sdk_generateContent = always (Inr \<lparr>response_text = Some ''text''\<rparr>)\<rparr>
      \<lparr>apiKey = ''key'', model = ''m'', baseUrl = None, prompt = ''hi'',
       systemInstruction = None, image_data = Some ''AAAA'', mimeType = Some ''image/jpeg'',
       jsonSchema = JUndefined\<rparr>)))) =
     [InlineData ''image/jpeg'' ''AAAA'', TextPart ''hi''] \<and>
   map part_type (parts_of (content (last (body_messages (http_body (hd (posts (snd
     (generateContent
      \<lparr>fetch = always (Inl (Error ''offline'')),
       sdk_generateContent = always (Inr \<lparr>response_text = Some ''text''\<rparr>)\<rparr>
      \<lparr>apiKey = ''key'', model = ''m'', baseUrl = Some ''https://x.test/v1'', prompt = ''hi'',
       systemInstruction = None, image_data = Some ''AAAA'', mimeType = Some ''image/jpeg'',
       jsonSchema = JUndefined\<rparr>))))))))) = [''text'', ''image_url'']"
  (is "parts (hd (sdk_calls (snd (generateContent ?W ?RB)))) = _ \<and>
       map part_type (parts_of (content (last (body_messages (http_body (hd (posts (snd
         (generateContent ?W ?RA))))))))) = _")
proof -
  let ?rq = "build_request ?RA ''https://x.test/v1'' (projr (build_body ?RA))"
  have sentA: "posts (snd (generateContent ?W ?RA)) = [?rq]"
    by (rule generateContent_posts) simp_all
  have sentB: "sdk_calls (snd (generateContent ?W ?RB)) = [build_call ?RB]"
    by (rule generateContent_sdk_calls) simp
  have mB: "mimeType_local ?RB = ''image/jpeg''"
    by (simp add: mimeType_local_def)
  from part_order [of ?W ?RB "build_call ?RB" "''AAAA''"] sentB mB
  have one: "parts (hd (sdk_calls (snd (generateContent ?W ?RB)))) =
             [InlineData ''image/jpeg'' ''AAAA'', TextPart ''hi'']"
    by simp
  from part_order [of ?W ?RA _ "''AAAA''" ?rq] sentA
  have two: "map part_type (parts_of (content (last (body_messages (http_body (hd (posts (snd
               (generateContent ?W ?RA))))))))) = [''text'', ''image_url'']"
    by simp
  from one two show ?thesis by simp
qed

theorem empty_image_part_order_counterexample:
  "sdk_calls (snd (generateContent
      \<lparr>fetch = always (Inl (Error ''offline'')),
       sdk_generateContent = always (Inr \<lparr>response_text = Some ''text''\<rparr>)\<rparr>
      \<lparr>apiKey = ''key'', model = ''m'', baseUrl = None, prompt = ''hi'',
       systemInstruction = None, image_data = Some '''', mimeType = Some ''image/jpeg'',
       jsonSchema = JUndefined\<rparr>)) =
     [\<lparr>sdk_apiKey = ''key'', sdk_model = ''m'', parts = [TextPart ''hi''],
       config = \<lparr>cfg_systemInstruction = None, responseMimeType = None,
                 responseSchema = None\<rparr>\<rparr>] \<and>
   posts (snd (generateContent
      \<lparr>fetch = always (Inl (Error ''offline'')),
       sdk_generateContent = always (Inr \<lparr>response_text = Some ''text''\<rparr>)\<rparr>
      \<lparr>apiKey = ''key'', model = ''m'', baseUrl = Some ''https://x.test/v1'', prompt = ''hi'',
       systemInstruction = None, image_data = Some '''', mimeType = Some ''image/jpeg'',
       jsonSchema = JUndefined\<rparr>)) =
     [\<lparr>endpoint = ''https://x.test/v1/chat/completions'', http_method = ''POST'',
       headers = [(''Content-Type'', ''application/json''), (''Authorization'', ''Bearer key'')],
       http_body =
         \<lparr>body_model = ''m'',
          body_messages =
            [\<lparr>role = ''user'',
              content = ContentParts
                [\<lparr>part_type = ''text'', part_text = Some ''hi'', image_url = None\<rparr>]\<rparr>],
          stream = False,
          response_format = None\<rparr>\<rparr>]"
  by (simp add: run_defs)

subsection \<open>The configuration of the SDK call\<close>

text \<open>
  C9, as the code has it. The configuration of the SDK call has \<open>systemInstruction\<close>
  exactly when the request's is present and not the empty string, and then it is the
  request's; it has \<open>responseMimeType = "application/json"\<close> and the schema as
  \<open>responseSchema\<close> when \<open>jsonSchema\<close> is truthy, and neither otherwise. The text part
  among the parts holds the prompt as it is.
\<close>

theorem native_config:
  assumes "sdk_calls (snd (generateContent w req)) = [c]"
  shows "(cfg_systemInstruction (config c) \<noteq> None \<longleftrightarrow>
            (\<exists>s. systemInstruction req = Some s \<and> s \<noteq> [])) \<and>
         (\<forall>s. systemInstruction req = Some s \<and> s \<noteq> [] \<longrightarrow>
            cfg_systemInstruction (config c) = Some s) \<and>
         (truthy (jsonSchema req) \<longrightarrow>
            responseMimeType (config c) = Some ''application/json'' \<and>
            responseSchema (config c) = Some (jsonSchema req)) \<and>
         (\<not> truthy (jsonSchema req) \<longrightarrow>
            responseMimeType (config c) = None \<and> responseSchema (config c) = None) \<and>
         filter (\<lambda>p. \<not> is_inline_data p) (parts c) = [TextPart (prompt req)]"
proof -
  from sdk_calls_singletonD[OF assms] have c: "c = build_call req" by simp
  have "filter (\<lambda>p. \<not> is_inline_data p) (parts c) = [TextPart (prompt req)]"
    by (simp add: c build_call_def build_parts_def inline_parts_def split: option.splits)
  moreover have "cfg_systemInstruction (config c) \<noteq> None \<longleftrightarrow>
            (\<exists>s. systemInstruction req = Some s \<and> s \<noteq> [])"
    by (cases "systemInstruction req") (simp_all add: c build_call_def build_config_def)
  moreover have "\<forall>s. systemInstruction req = Some s \<and> s \<noteq> [] \<longrightarrow>
            cfg_systemInstruction (config c) = Some s"
    by (simp add: c build_call_def build_config_def)
  moreover have "truthy (jsonSchema req) \<longrightarrow>
            responseMimeType (config c) = Some ''application/json'' \<and>
            responseSchema (config c) = Some (jsonSchema req)"
    by (simp add: c build_call_def build_config_def)
  moreover have "\<not> truthy (jsonSchema req) \<longrightarrow>
            responseMimeType (config c) = None \<and> responseSchema (config c) = None"
    by (simp add: c build_call_def build_config_def)
  ultimately show ?thesis by blast
qed

theorem native_config_witness:
  "config (hd (sdk_calls (snd (generateContent
      \<lparr>fetch = always (Inl (Error ''offline'')),
       sdk_generateContent = always (Inr \<lparr>response_text = Some ''text''\<rparr>)\<rparr>
      \<lparr>apiKey = ''key'', model = ''m'', baseUrl = None, prompt = ''hi'',
       systemInstruction = Some ''be brief'', image_data = None, mimeType = None,
       jsonSchema = JObj [(''type'', JStr ''object'')]\<rparr>)))) =
     \<lparr>cfg_systemInstruction = Some ''be brief'',
      responseMimeType = Some ''application/json'',
      responseSchema = Some (JObj [(''type'', JStr ''object'')])\<rparr>"
  (is "config (hd (sdk_calls (snd (generateContent ?W ?R)))) = _")
proof -
  have called: "sdk_calls (snd (generateContent ?W ?R)) = [build_call ?R]"
    by (rule generateContent_sdk_calls) simp
  from native_config [OF called]
  have "cfg_systemInstruction (config (build_call ?R)) = Some ''be brief''"
    and "responseMimeType (config (build_call ?R)) = Some ''application/json''"
    and "responseSchema (config (build_call ?R)) = Some (JObj [(''type'', JStr ''object'')])"
    by simp_all
  then show ?thesis
    by (simp add: called)
qed

theorem empty_instruction_falsy_schema_counterexample:
  "sdk_calls (snd (generateContent
      \<lparr>fetch = always (Inl (Error ''offline'')),
       sdk_generateContent = always (Inr \<lparr>response_text = Some ''text''\<rparr>)\<rparr>
      \<lparr>apiKey = ''key'', model = ''m'', baseUrl = None, prompt = ''hi'',
       systemInstruction = Some '''', image_data = None, mimeType = None,
       jsonSchema = JBool False\<rparr>)) =
     [\<lparr>sdk_apiKey = ''key'', sdk_model = ''m'', parts = [TextPart ''hi''],
       config = \<lparr>cfg_systemInstruction = None, responseMimeType = None,
                 responseSchema = None\<rparr>\<rparr>]"
  by (simp add: run_defs)

subsection \<open>The user message on the first path\<close>

lemma sent_messages:
  assumes "baseUrl req = Some b" and "b \<noteq> []"
  shows "map (\<lambda>rq. body_messages (http_body rq)) (posts (snd (generateContent w req))) =
         [system_messages req @
          [\<lparr>role = ''user'',
            content = ContentParts
              (text_part (prompt req @ (if truthy (jsonSchema req) then json_suffix else []))
               # image_parts req)\<rparr>]]"
  using generateContent_posts[OF assms, of w]
  by (simp add: build_request_def build_body_eq)

text \<open>
  C10. On the first path the last message built is the user message, and its content
  is an array whose first element is the text part holding the prompt, never a string,
  so the test \<open>typeof lastMsg.content === 'string'\<close> is false. The suffix logic succeeds
  on the messages built and leaves every message before the last as it was; these are
  the system message, whose content is the system instruction, or none. The same holds of
  the messages that are sent.
\<close>

theorem user_content_always_parts:
  assumes "baseUrl req = Some b" and "b \<noteq> []"
  shows "role (last (build_messages req)) = ''user'' \<and>
         content (last (build_messages req)) =
           ContentParts (\<lparr>part_type = ''text'', part_text = Some (prompt req), image_url = None\<rparr>
                         # image_parts req) \<and>
         (\<forall>s. content (last (build_messages req)) \<noteq> ContentString s) \<and>
         (\<exists>ms. append_json_hint (build_messages req) = Inr ms \<and>
               butlast ms = butlast (build_messages req) \<and>
               role (last ms) = ''user'') \<and>
         butlast (build_messages req) = system_messages req \<and>
         (\<forall>m \<in> set (system_messages req).
            role m = ''system'' \<and> systemInstruction req = Some (case content m of
                                                               ContentString s \<Rightarrow> s
                                                             | ContentParts ps \<Rightarrow> [])) \<and>
         map (\<lambda>rq. butlast (body_messages (http_body rq))) (posts (snd (generateContent w req))) =
           [system_messages req] \<and>
         map (\<lambda>rq. content (last (body_messages (http_body rq))))
             (posts (snd (generateContent w req))) =
           [ContentParts
              (\<lparr>part_type = ''text'',
                part_text = Some (prompt req @
                                  (if truthy (jsonSchema req) then json_suffix else [])),
                image_url = None\<rparr>
               # image_parts req)]"
proof -
  have "role (last (build_messages req)) = ''user''"
    by (simp add: build_messages_def)
  moreover
  have built: "content (last (build_messages req)) =
           ContentParts (\<lparr>part_type = ''text'', part_text = Some (prompt req), image_url = None\<rparr>
                         # image_parts req)"
    by (simp add: build_messages_def user_content_def text_part_def)
  moreover
  have "\<forall>s. content (last (build_messages req)) \<noteq> ContentString s"
    by (simp add: built)
  moreover
  have "\<exists>ms. append_json_hint (build_messages req) = Inr ms \<and>
               butlast ms = butlast (build_messages req) \<and>
               role (last ms) = ''user''"
    by (simp add: append_json_hint_build_messages) (simp add: build_messages_def)
  moreover
  have "butlast (build_messages req) = system_messages req"
    by (simp add: build_messages_def)
  moreover
  have "\<forall>m \<in> set (system_messages req).
            role m = ''system'' \<and> systemInstruction req = Some (case content m of
                                                               ContentString s \<Rightarrow> s
                                                             | ContentParts ps \<Rightarrow> [])"
    by (auto simp: system_messages_def split: option.splits if_splits)
  moreover
  have "map (\<lambda>rq. butlast (body_messages (http_body rq))) (posts (snd (generateContent w req))) =
           [system_messages req]"
    using sent_messages[OF assms, of w]
    by (cases "posts (snd (generateContent w req))") auto
  moreover
  have "map (\<lambda>rq. content (last (body_messages (http_body rq))))
             (posts (snd (generateContent w req))) =
           [ContentParts
              (\<lparr>part_type = ''text'',
                part_text = Some (prompt req @
                                  (if truthy (jsonSchema req) then json_suffix else [])),
                image_url = None\<rparr>
               # image_parts req)]"
    using sent_messages[OF assms, of w]
    by (cases "posts (snd (generateContent w req))") (auto simp: text_part_def)
  ultimately show ?thesis by blast
qed

theorem user_content_always_parts_witness:
  "body_messages (http_body (hd (posts (snd (generateContent
      \<lparr>fetch = always (Inl (Error ''offline'')),
       sdk_generateContent = always (Inl (Error ''unused''))\<rparr>
      \<lparr>apiKey = ''key'', model = ''m'', baseUrl = Some ''https://x.test/v1'', prompt = ''hi'',
       systemInstruction = Some ''be brief'', image_data = None, mimeType = None,
       jsonSchema = JObj [(''type'', JStr ''object'')]\<rparr>))))) =
     [\<lparr>role = ''system'', content = ContentString ''be brief''\<rparr>,
      \<lparr>role = ''user'',
       content = ContentParts
         [\<lparr>part_type = ''text'',
           part_text = Some ''hi\<newline>\<newline>Please respond in valid JSON format.'',
           image_url = None\<rparr>]\<rparr>]"
  (is "body_messages (http_body (hd (posts (snd (generateContent ?W ?R))))) = _")
proof -
  let ?rq = "build_request ?R ''https://x.test/v1'' (projr (build_body ?R))"
  have a: "baseUrl ?R = Some ''https://x.test/v1''" by simp
  have b: "''https://x.test/v1'' \<noteq> []" by simp
  have sent: "posts (snd (generateContent ?W ?R)) = [?rq]"
    using a b by (rule generateContent_posts)
  have shape: "body_messages (http_body ?rq) =
               butlast (body_messages (http_body ?rq)) @ [last (body_messages (http_body ?rq))]"
    by (simp add: build_request_def build_body_eq)
  from user_content_always_parts [OF a b, of ?W]
  have front: "butlast (body_messages (http_body ?rq)) = system_messages ?R"
    and rear: "content (last (body_messages (http_body ?rq))) =
           ContentParts
              (\<lparr>part_type = ''text'',
                part_text = Some (prompt ?R @
                                  (if truthy (jsonSchema ?R) then json_suffix else [])),
                image_url = None\<rparr>
               # image_parts ?R)"
    by (simp_all add: sent)
  have user: "role (last (body_messages (http_body ?rq))) = ''user''"
    by (simp add: build_request_def build_body_eq)
  have "last (body_messages (http_body ?rq)) =
        \<lparr>role = ''user'',
         content = ContentParts
           [\<lparr>part_type = ''text'',
             part_text = Some ''hi\<newline>\<newline>Please respond in valid JSON format.'',
             image_url = None\<rparr>]\<rparr>"
    using rear user
    by (cases "last (body_messages (http_body ?rq))")
       (simp add: image_parts_def json_suffix_def)
  with shape front show ?thesis
    by (simp add: sent system_messages_def)
qed

end
